theory Spec2Isabelle
  imports Main "HOL-Library.Sublist" "HOL-Library.AList"
begin

section \<open>Python values, exceptions and library capabilities\<close>

text \<open>
  The scraper works on loosely typed data: whatever the structured-data extraction
  found on a page. A Python value is one of the shapes the code tests for with
  \<^verbatim>\<open>type(x) == ...\<close> and \<^verbatim>\<open>isinstance\<close>. A \<^verbatim>\<open>dict\<close> is an association list
  in insertion order with string keys; a \<^verbatim>\<open>datetime.timedelta\<close> (what the extraction
  with \<^verbatim>\<open>python_objects=True\<close> yields for durations) is its number of microseconds.
  A \<^verbatim>\<open>str\<close> is a \<^typ>\<open>string\<close>: the characters are those of the ASCII range.
\<close>

datatype pyval =
    PNone
  | PBool bool
  | PInt int
  | PStr string
  | PList "pyval list"
  | PDict "(string \<times> pyval) list"
  | PTimedelta int

text \<open>
  Exceptions are values. \<open>Exception msg\<close> is the plain \<^verbatim>\<open>Exception(msg)\<close> that the
  normalizers raise for a shape they do not know; \<open>RequestException\<close> stands for
  whatever \<^verbatim>\<open>requests.get\<close> raises, and \<open>OSError\<close> for what \<^verbatim>\<open>open\<close> raises on a name
  that cannot be created.
\<close>

datatype py_error =
    IndexError
  | KeyError string
  | TypeError
  | AttributeError
  | RequestException
  | OSError
  | Exception string

text \<open>
  The library functions the two modules call are not part of the repository. They are
  the fields of a record that every operation takes as its first argument:
  \<^item> \<open>lib_unescape\<close>: \<^verbatim>\<open>html.unescape\<close> on a \<^verbatim>\<open>str\<close>;
  \<^item> \<open>lib_str\<close>: the builtin \<^verbatim>\<open>str(x)\<close>, which is also what an f-string field formats with;
  \<^item> \<open>lib_slugify\<close>: \<^verbatim>\<open>slugify.slugify\<close>;
  \<^item> \<open>lib_loads\<close>, \<open>lib_scrape_url\<close>: \<^verbatim>\<open>scrape_schema_recipe.loads\<close> and \<^verbatim>\<open>scrape_url\<close>;
  \<^item> \<open>lib_get_base_url\<close>: \<^verbatim>\<open>w3lib.html.get_base_url\<close>;
  \<^item> \<open>lib_opengraph\<close>: the \<^verbatim>\<open>"opengraph"\<close> entry of \<^verbatim>\<open>extruct.extract\<close>, one list of
    (name, value) properties for each OpenGraph block of the page;
  \<^item> \<open>lib_url_path\<close>: \<^verbatim>\<open>urllib.parse.urlparse(u).path\<close>;
  \<^item> \<open>lib_http_get\<close>: \<^verbatim>\<open>requests.get\<close>, giving the status code and the body.
\<close>

record library =
  lib_unescape :: "string \<Rightarrow> string"
  lib_str :: "pyval \<Rightarrow> string"
  lib_slugify :: "pyval \<Rightarrow> py_error + string"
  lib_loads :: "string \<Rightarrow> pyval list"
  lib_scrape_url :: "string \<Rightarrow> py_error + pyval list"
  lib_get_base_url :: "string \<Rightarrow> string \<Rightarrow> string"
  lib_opengraph :: "string \<Rightarrow> string \<Rightarrow> (string \<times> string) list list"
  lib_url_path :: "string \<Rightarrow> string"
  lib_http_get :: "string \<Rightarrow> py_error + (nat \<times> string)"

text \<open>Truth value of a Python object, as \<^verbatim>\<open>not x\<close> and \<^verbatim>\<open>if x\<close> read it.\<close>

fun truthy :: "pyval \<Rightarrow> bool" where
  "truthy PNone = False"
| "truthy (PBool b) = b"
| "truthy (PInt i) = (i \<noteq> 0)"
| "truthy (PStr s) = (s \<noteq> [])"
| "truthy (PList xs) = (xs \<noteq> [])"
| "truthy (PDict d) = (d \<noteq> [])"
| "truthy (PTimedelta t) = (t \<noteq> 0)"

section \<open>Field normalizers (scrape\_services.py)\<close>

subsection \<open>Outcomes\<close>

text \<open>
  A call either raises (\<open>Inl\<close>) or returns (\<open>Inr\<close>). A function that calls
  \<^verbatim>\<open>unescape_html\<close> contains its \<^verbatim>\<open>while\<close> loop, which no bound in the code stops, so
  its outcome is an option: \<open>None\<close> is "does not return".
\<close>

definition rbind ::
  "(py_error + 'a) option \<Rightarrow> ('a \<Rightarrow> (py_error + 'b) option) \<Rightarrow> (py_error + 'b) option" where
  "rbind m f = (case m of None \<Rightarrow> None | Some (Inl e) \<Rightarrow> Some (Inl e) | Some (Inr x) \<Rightarrow> f x)"

text \<open>
  A list comprehension evaluates its elements from left to right and stops at the first
  one that raises or does not return.
\<close>

fun sequence_res :: "(py_error + 'a) option list \<Rightarrow> (py_error + 'a list) option" where
  "sequence_res [] = Some (Inr [])"
| "sequence_res (m # ms) =
     (case m of
        None \<Rightarrow> None
      | Some (Inl e) \<Rightarrow> Some (Inl e)
      | Some (Inr x) \<Rightarrow>
          (case sequence_res ms of
             None \<Rightarrow> None
           | Some (Inl e) \<Rightarrow> Some (Inl e)
           | Some (Inr xs) \<Rightarrow> Some (Inr (x # xs))))"

subsection \<open>Builtin operations on values\<close>

text \<open>\<^verbatim>\<open>d.get(k)\<close> and \<^verbatim>\<open>d[k] = v\<close> on a dict; \<^verbatim>\<open>x[k]\<close> with a string key on any object.\<close>

definition dict_get :: "(string \<times> pyval) list \<Rightarrow> string \<Rightarrow> pyval" where
  "dict_get d k = (case map_of d k of None \<Rightarrow> PNone | Some v \<Rightarrow> v)"

definition dict_set :: "string \<Rightarrow> pyval \<Rightarrow> (string \<times> pyval) list \<Rightarrow> (string \<times> pyval) list" where
  "dict_set k v d = AList.update k v d"

fun py_getitem :: "pyval \<Rightarrow> string \<Rightarrow> py_error + pyval" where
  "py_getitem (PDict d) k = (case map_of d k of None \<Rightarrow> Inl (KeyError k) | Some v \<Rightarrow> Inr v)"
| "py_getitem x k = Inl TypeError"

text \<open>
  \<^verbatim>\<open>for x in v\<close>: a list gives its elements, a string its characters, a dict its keys;
  nothing else here is iterable.
\<close>

fun py_iter :: "pyval \<Rightarrow> py_error + pyval list" where
  "py_iter (PList xs) = Inr xs"
| "py_iter (PStr s) = Inr (map (\<lambda>c. PStr [c]) s)"
| "py_iter (PDict d) = Inr (map (\<lambda>kv. PStr (fst kv)) d)"
| "py_iter x = Inl TypeError"

text \<open>
  \<^verbatim>\<open>s.strip()\<close> removes leading and trailing whitespace; the ASCII whitespace characters
  are 9 to 13, 28 to 31 and the space. Only a \<^verbatim>\<open>str\<close> has the method.
\<close>

definition is_space :: "char \<Rightarrow> bool" where
  "is_space c = (let n = (of_char c :: nat) in (9 \<le> n \<and> n \<le> 13) \<or> (28 \<le> n \<and> n \<le> 32))"

definition strip :: "string \<Rightarrow> string" where
  "strip s = rev (dropWhile is_space (rev (dropWhile is_space s)))"

fun py_strip :: "pyval \<Rightarrow> py_error + string" where
  "py_strip (PStr s) = Inr (strip s)"
| "py_strip x = Inl AttributeError"

subsection \<open>The step splitter\<close>

text \<open>
  \<^verbatim>\<open>STEP_SPLITTER = re.compile(r"(?:\d\. ?)|(?:[\n\r]+)")\<close>

  \<open>STEP_SPLITTER_split acc s\<close> is \<^verbatim>\<open>STEP_SPLITTER.split\<close> on the rest \<open>s\<close> of the
  string, \<open>acc\<close> holding (reversed) the characters of the fragment being read. The
  matcher tries the alternatives in order at each position: a digit, a dot and an
  optional space; otherwise a longest run of line feeds and carriage returns. Both are
  non-empty, and the text between two matches (also the empty text) is a fragment.
\<close>

definition is_digit :: "char \<Rightarrow> bool" where
  "is_digit c = (let n = (of_char c :: nat) in 48 \<le> n \<and> n \<le> 57)"

definition is_newline :: "char \<Rightarrow> bool" where
  "is_newline c = (c = CHR 0x0A \<or> c = CHR 0x0D)"

fun drop_space :: "string \<Rightarrow> string" where
  "drop_space [] = []"
| "drop_space (c # cs) = (if c = CHR '' '' then cs else c # cs)"

function STEP_SPLITTER_split :: "string \<Rightarrow> string \<Rightarrow> string list" where
  "STEP_SPLITTER_split acc [] = [rev acc]"
| "STEP_SPLITTER_split acc (c # cs) =
     (if is_digit c \<and> cs \<noteq> [] \<and> hd cs = CHR ''.''
        then rev acc # STEP_SPLITTER_split [] (drop_space (tl cs))
      else if is_newline c
        then rev acc # STEP_SPLITTER_split [] (dropWhile is_newline cs)
      else STEP_SPLITTER_split (c # acc) cs)"
  by pat_completeness auto
termination
proof (relation "measure (\<lambda>(acc, s). length s)")
  fix acc :: string and c :: char and cs :: string
  have "length (drop_space (tl cs)) \<le> length cs"
    by (cases cs; cases "tl cs") auto
  then show "((([]::string), drop_space (tl cs)), (acc, c # cs)) \<in> measure (\<lambda>(acc, s). length s)"
    by simp
  have "length (dropWhile is_newline cs) \<le> length cs"
    by (rule length_dropWhile_le)
  then show "((([]::string), dropWhile is_newline cs), (acc, c # cs)) \<in> measure (\<lambda>(acc, s). length s)"
    by simp
qed auto

subsection \<open>Unescaping\<close>

text \<open>
  \<^verbatim>\<open>html.unescape(l)\<close> on an arbitrary object starts with \<^verbatim>\<open>if '&' not in l: return l\<close>:
  a list or a dict without the member \<^verbatim>\<open>'&'\<close> comes back as it is, one with it reaches the
  regular expression and raises, and the membership test itself raises on an object that
  is not a container.
\<close>

fun html_unescape :: "library \<Rightarrow> pyval \<Rightarrow> py_error + pyval" where
  "html_unescape L (PStr s) = Inr (PStr (lib_unescape L s))"
| "html_unescape L (PList xs) = (if PStr ''&'' \<in> set xs then Inl TypeError else Inr (PList xs))"
| "html_unescape L (PDict d) = (if ''&'' \<in> set (map fst d) then Inl TypeError else Inr (PDict d))"
| "html_unescape L x = Inl TypeError"

text \<open>
  \<^verbatim>\<open>
  def unescape_html(l) -> str:
      if not l:
          return None
      # Some sites erroneously escape their strings on multiple levels
      while not l == (l := html.unescape(l)):
          pass
      return l
  \<close>
  The loop test reads the old \<open>l\<close>, assigns the decoded value to \<open>l\<close> and compares the
  two: the loop ends at the first pass that changes nothing. Nothing counts the passes.
\<close>

partial_function (option) unescape_loop :: "library \<Rightarrow> pyval \<Rightarrow> (py_error + pyval) option" where
  "unescape_loop L l =
     (case html_unescape L l of
        Inl e \<Rightarrow> Some (Inl e)
      | Inr l' \<Rightarrow> if l = l' then Some (Inr l') else unescape_loop L l')"

declare unescape_loop.simps [code]

definition unescape_html :: "library \<Rightarrow> pyval \<Rightarrow> (py_error + pyval) option" where
  "unescape_html L l = (if \<not> truthy l then Some (Inr PNone) else unescape_loop L l)"

subsection \<open>The normalizers\<close>

text \<open>
  \<^verbatim>\<open>
  def normalize_image_url(image) -> str:
      if type(image) == list:
          return image[0]
      elif type(image) == dict:
          return image["url"]
      elif type(image) == str:
          return image
      else:
          raise Exception(f"Unrecognised image URL format: {image}")
  \<close>
\<close>

fun normalize_image_url :: "library \<Rightarrow> pyval \<Rightarrow> py_error + pyval" where
  "normalize_image_url L (PList []) = Inl IndexError"
| "normalize_image_url L (PList (x # xs)) = Inr x"
| "normalize_image_url L (PDict d) =
     (case map_of d ''url'' of None \<Rightarrow> Inl (KeyError ''url'') | Some v \<Rightarrow> Inr v)"
| "normalize_image_url L (PStr s) = Inr (PStr s)"
| "normalize_image_url L img =
     Inl (Exception (''Unrecognised image URL format: '' @ lib_str L img))"

text \<open>
  \<^verbatim>\<open>
  def normalize_yield(yld) -> str:
      if type(yld) == list:
          return yld[-1]
      else:
          return yld
  \<close>
\<close>

fun normalize_yield :: "pyval \<Rightarrow> py_error + pyval" where
  "normalize_yield (PList []) = Inl IndexError"
| "normalize_yield (PList (x # xs)) = Inr (last (x # xs))"
| "normalize_yield yld = Inr yld"

text \<open>
  \<^verbatim>\<open>
  def normalize_time(time_entry) -> str:
      if type(time_entry) == type(None):
          return None
      elif type(time_entry) != str:
          return str(time_entry)
  \<close>
  There is no third branch: a \<^verbatim>\<open>str\<close> reaches the end of the body, and a Python function
  that ends without \<^verbatim>\<open>return\<close> gives \<^verbatim>\<open>None\<close>.
\<close>

fun normalize_time :: "library \<Rightarrow> pyval \<Rightarrow> pyval" where
  "normalize_time L PNone = PNone"
| "normalize_time L (PStr s) = PNone"
| "normalize_time L time_entry = PStr (lib_str L time_entry)"

text \<open>
  \<^verbatim>\<open>
  def normalize_instructions(instructions) -> List[dict]:
      if type(instructions) == str:
          return [
              {"text": unescape_html(line.strip())} for line in STEP_SPLITTER.split(instructions) if line
          ]
      # Plain strings in a list
      elif type(instructions) == list and type(instructions[0]) == str:
          return [{"text": unescape_html(step.strip())} for step in instructions]
      # Dictionaries (let's assume it's a HowToStep) in a list
      elif type(instructions) == list and type(instructions[0]) == dict:
          steps = instructions[0]["itemListElement"] if instructions[0]["@type"] == "HowToSection" else instructions
          return [
              {"text": unescape_html(step["text"].strip())}
              for step in steps
              if step["@type"] == "HowToStep"
      ]
      else:
          raise Exception(f"Unrecognised instruction format: {instructions}")
  \<close>
  \<open>text_step L x\<close> is the element \<^verbatim>\<open>{"text": unescape_html(x.strip())}\<close>, and
  \<open>howto_step L step\<close> the contribution of one \<open>step\<close> to the last comprehension: nothing
  when its type tag is not \<^verbatim>\<open>"HowToStep"\<close>.
\<close>

definition text_step :: "library \<Rightarrow> pyval \<Rightarrow> (py_error + pyval) option" where
  "text_step L x =
     (case py_strip x of
        Inl e \<Rightarrow> Some (Inl e)
      | Inr s \<Rightarrow> rbind (unescape_html L (PStr s)) (\<lambda>t. Some (Inr (PDict [(''text'', t)]))))"

definition howto_step :: "library \<Rightarrow> pyval \<Rightarrow> (py_error + pyval list) option" where
  "howto_step L step =
     (case py_getitem step ''@type'' of
        Inl e \<Rightarrow> Some (Inl e)
      | Inr t \<Rightarrow>
          if t = PStr ''HowToStep''
          then (case py_getitem step ''text'' of
                  Inl e \<Rightarrow> Some (Inl e)
                | Inr x \<Rightarrow> rbind (text_step L x) (\<lambda>r. Some (Inr [r])))
          else Some (Inr []))"

definition howto_steps :: "library \<Rightarrow> pyval list \<Rightarrow> (py_error + pyval list) option" where
  "howto_steps L steps = rbind (sequence_res (map (howto_step L) steps)) (\<lambda>rs. Some (Inr (concat rs)))"

fun normalize_instructions :: "library \<Rightarrow> pyval \<Rightarrow> (py_error + pyval list) option" where
  "normalize_instructions L (PStr s) =
     sequence_res (map (\<lambda>line. text_step L (PStr line))
                       (filter (\<lambda>line. line \<noteq> []) (STEP_SPLITTER_split [] s)))"
| "normalize_instructions L (PList []) = Some (Inl IndexError)"
| "normalize_instructions L (PList (PStr x # xs)) =
     sequence_res (map (text_step L) (PStr x # xs))"
| "normalize_instructions L (PList (PDict d # xs)) =
     (case py_getitem (PDict d) ''@type'' of
        Inl e \<Rightarrow> Some (Inl e)
      | Inr t \<Rightarrow>
          if t = PStr ''HowToSection''
          then (case py_getitem (PDict d) ''itemListElement'' of
                  Inl e \<Rightarrow> Some (Inl e)
                | Inr items \<Rightarrow>
                    (case py_iter items of
                       Inl e \<Rightarrow> Some (Inl e)
                     | Inr steps \<Rightarrow> howto_steps L steps))
          else howto_steps L (PDict d # xs))"
| "normalize_instructions L instructions =
     Some (Inl (Exception (''Unrecognised instruction format: '' @ lib_str L instructions)))"

text \<open>
  \<^verbatim>\<open>
  def normalize_ingredients(ingredients) -> List[str]:
      return [unescape_html(line.strip()) for line in ingredients]
  \<close>
\<close>

definition normalize_ingredients :: "library \<Rightarrow> pyval \<Rightarrow> (py_error + pyval list) option" where
  "normalize_ingredients L ingredients =
     (case py_iter ingredients of
        Inl e \<Rightarrow> Some (Inl e)
      | Inr lines \<Rightarrow>
          sequence_res (map (\<lambda>line. case py_strip line of
                                      Inl e \<Rightarrow> Some (Inl e)
                                    | Inr s \<Rightarrow> unescape_html L (PStr s)) lines))"

text \<open>
  \<^verbatim>\<open>
  def normalize_data(recipe_data: dict) -> dict:
      recipe_data["description"] = unescape_html(recipe_data.get("description"))
      recipe_data["totalTime"] = normalize_time(recipe_data.get("totalTime"))
      recipe_data["prepTime"] = normalize_time(recipe_data.get("prepTime"))
      recipe_data["performTime"] = normalize_time(recipe_data.get("performTime"))
      recipe_data["recipeYield"] = normalize_yield(recipe_data.get("recipeYield"))
      recipe_data["recipeInstructions"] = normalize_instructions(
          recipe_data["recipeInstructions"]
      )
      recipe_data["recipeIngredient"] = normalize_ingredients(recipe_data["recipeIngredient"])
      recipe_data["image"] = normalize_image_url(recipe_data.get("image"))
      return recipe_data
  \<close>
\<close>

definition normalize_times :: "library \<Rightarrow> (string \<times> pyval) list \<Rightarrow> (string \<times> pyval) list" where
  "normalize_times L d =
     (let d1 = dict_set ''totalTime'' (normalize_time L (dict_get d ''totalTime'')) d;
          d2 = dict_set ''prepTime'' (normalize_time L (dict_get d1 ''prepTime'')) d1
      in dict_set ''performTime'' (normalize_time L (dict_get d2 ''performTime'')) d2)"

definition normalize_data ::
  "library \<Rightarrow> (string \<times> pyval) list \<Rightarrow> (py_error + (string \<times> pyval) list) option" where
  "normalize_data L recipe_data =
     rbind (unescape_html L (dict_get recipe_data ''description'')) (\<lambda>description.
     let d1 = normalize_times L (dict_set ''description'' description recipe_data) in
     rbind (Some (normalize_yield (dict_get d1 ''recipeYield''))) (\<lambda>yld.
     let d2 = dict_set ''recipeYield'' yld d1 in
     rbind (Some (py_getitem (PDict d2) ''recipeInstructions'')) (\<lambda>raw_instructions.
     rbind (normalize_instructions L raw_instructions) (\<lambda>instructions.
     let d3 = dict_set ''recipeInstructions'' (PList instructions) d2 in
     rbind (Some (py_getitem (PDict d3) ''recipeIngredient'')) (\<lambda>raw_ingredients.
     rbind (normalize_ingredients L raw_ingredients) (\<lambda>ingredients.
     let d4 = dict_set ''recipeIngredient'' (PList ingredients) d3 in
     rbind (Some (normalize_image_url L (dict_get d4 ''image''))) (\<lambda>img.
     Some (Inr (dict_set ''image'' img d4)))))))))"

section \<open>The extractor (scrape\_services.py)\<close>

text \<open>
  \<^verbatim>\<open>
  def process_recipe_data(new_recipe: dict, url=None) -> dict:
      slug = slugify(new_recipe["name"])
      mealie_tags = {
          "slug": slug, "orgURL": url, "categories": [], "tags": [],
          "dateAdded": None, "notes": [], "extras": [],
      }
      new_recipe.update(mealie_tags)
      return new_recipe
  \<close>
  \<^verbatim>\<open>update\<close> stores the entries of its argument one after the other. A candidate that is
  not a dict fails at \<^verbatim>\<open>new_recipe["name"]\<close> already.
\<close>

definition process_recipe_data :: "library \<Rightarrow> pyval \<Rightarrow> string \<Rightarrow> py_error + (string \<times> pyval) list" where
  "process_recipe_data L new_recipe url =
     (case py_getitem new_recipe ''name'' of
        Inl e \<Rightarrow> Inl e
      | Inr name \<Rightarrow>
          (case lib_slugify L name of
             Inl e \<Rightarrow> Inl e
           | Inr slug \<Rightarrow>
               (case new_recipe of
                  PDict d \<Rightarrow>
                    Inr (fold (\<lambda>kv. dict_set (fst kv) (snd kv))
                           [(''slug'', PStr slug), (''orgURL'', PStr url), (''categories'', PList []),
                            (''tags'', PList []), (''dateAdded'', PNone), (''notes'', PList []),
                            (''extras'', PList [])] d)
                | _ \<Rightarrow> Inl TypeError)))"

text \<open>
  \<^verbatim>\<open>
  def og_field(properties: dict, field_name: str) -> str:
      return next((val for name, val in properties if name == field_name), None)

  def og_fields(properties: List[Tuple[str, str]], field_name: str) -> List[str]:
      return list({val for name, val in properties if name == field_name})
  \<close>
  The order in which a Python set lists its members is not fixed; here it is the order of
  first occurrence.
\<close>

definition og_field :: "(string \<times> string) list \<Rightarrow> string \<Rightarrow> pyval" where
  "og_field properties field_name =
     (case filter (\<lambda>nv. fst nv = field_name) properties of
        [] \<Rightarrow> PNone
      | nv # _ \<Rightarrow> PStr (snd nv))"

definition og_fields :: "(string \<times> string) list \<Rightarrow> string \<Rightarrow> pyval" where
  "og_fields properties field_name =
     PList (map PStr (remdups (map snd (filter (\<lambda>nv. fst nv = field_name) properties))))"

text \<open>
  \<^verbatim>\<open>
  def basic_recipe_from_opengraph(html: str, url: str) -> dict:
      base_url = get_base_url(html, url)
      data = extruct.extract(html, base_url=base_url)
      properties = data["opengraph"][0]["properties"]
      return {
          "name": og_field(properties, "og:title"),
          "description": og_field(properties, "og:description"),
          "image": og_field(properties, "og:image"),
          "recipeYield": "",
          "recipeIngredient": ["Could not detect ingredients"],
          "recipeInstructions": [{"text": "Could not detect instructions"}],
          "slug": slugify(og_field(properties, "og:title")),
          "orgURL": og_field(properties, "og:url"),
          "categories": [],
          "tags": og_fields(properties, "og:article:tag"),
          "dateAdded": None,
          "notes": [],
          "extras": [],
      }
  \<close>
  The index \<^verbatim>\<open>[0]\<close> has no guard: a page without OpenGraph data raises \<^verbatim>\<open>IndexError\<close>.
\<close>

definition basic_recipe_from_opengraph :: "library \<Rightarrow> string \<Rightarrow> string \<Rightarrow> py_error + pyval" where
  "basic_recipe_from_opengraph L html url =
     (let base_url = lib_get_base_url L html url in
      case lib_opengraph L html base_url of
        [] \<Rightarrow> Inl IndexError
      | properties # _ \<Rightarrow>
          (case lib_slugify L (og_field properties ''og:title'') of
             Inl e \<Rightarrow> Inl e
           | Inr slug \<Rightarrow>
               Inr (PDict
                 [(''name'', og_field properties ''og:title''),
                  (''description'', og_field properties ''og:description''),
                  (''image'', og_field properties ''og:image''),
                  (''recipeYield'', PStr []),
                  (''recipeIngredient'', PList [PStr ''Could not detect ingredients'']),
                  (''recipeInstructions'', PList [PDict [(''text'', PStr ''Could not detect instructions'')]]),
                  (''slug'', PStr slug),
                  (''orgURL'', og_field properties ''og:url''),
                  (''categories'', PList []),
                  (''tags'', og_fields properties ''og:article:tag''),
                  (''dateAdded'', PNone),
                  (''notes'', PList []),
                  (''extras'', PList [])])))"

text \<open>
  \<^verbatim>\<open>
  def extract_recipe_from_html(html: str, url: str) -> dict:
      scraped_recipes: List[dict] = scrape_schema_recipe.loads(html, python_objects=True)
      if not scraped_recipes:
          scraped_recipes: List[dict] = scrape_schema_recipe.scrape_url(
              url, python_objects=True
          )
      if scraped_recipes:
          new_recipe: dict = scraped_recipes[0]
          logger.info(f"Recipe Scraped From Web: {new_recipe}")
          if not new_recipe:
              return "fail"  # TODO: Return Better Error Here
          new_recipe = process_recipe_data(new_recipe, url=url)
          new_recipe = normalize_data(new_recipe)
      else:
          new_recipe = basic_recipe_from_opengraph(html, url)
          logger.info(f"Recipe Scraped from opengraph metadata: {new_recipe}")
      return new_recipe
  \<close>
  \<open>scraped_recipes L html url\<close> is the list of candidates after the second attempt,
  which is made only when the first one found nothing.
\<close>

definition scraped_recipes :: "library \<Rightarrow> string \<Rightarrow> string \<Rightarrow> py_error + pyval list" where
  "scraped_recipes L html url =
     (if lib_loads L html = [] then lib_scrape_url L url else Inr (lib_loads L html))"

definition extract_recipe_from_html :: "library \<Rightarrow> string \<Rightarrow> string \<Rightarrow> (py_error + pyval) option" where
  "extract_recipe_from_html L html url =
     (case scraped_recipes L html url of
        Inl e \<Rightarrow> Some (Inl e)
      | Inr [] \<Rightarrow> Some (basic_recipe_from_opengraph L html url)
      | Inr (new_recipe # _) \<Rightarrow>
          if \<not> truthy new_recipe then Some (Inr (PStr ''fail''))
          else (case process_recipe_data L new_recipe url of
                  Inl e \<Rightarrow> Some (Inl e)
                | Inr d \<Rightarrow> rbind (normalize_data L d) (\<lambda>d'. Some (Inr (PDict d')))))"

section \<open>The image store (image\_services.py)\<close>

text \<open>
  \<^verbatim>\<open>IMG_DIR\<close> is a flat directory: a list of files, each a name and its bytes, in the order
  in which the directory lists them (the order of \<^verbatim>\<open>IMG_DIR.glob\<close>). A file that is
  created goes to the end of the list; one that is rewritten keeps its place. A name is
  that of a directory entry when it is not empty, not \<^verbatim>\<open>.\<close> or \<^verbatim>\<open>..\<close> and has no slash and
  no NUL; \<^verbatim>\<open>open\<close> raises on any other name (the directory has no subdirectories).
  \<open>glob_prefix fs stem\<close> is \<^verbatim>\<open>IMG_DIR.glob(f"{stem}*")\<close> for a \<open>stem\<close> without the
  pattern characters \<^verbatim>\<open>*\<close>, \<^verbatim>\<open>?\<close>, \<^verbatim>\<open>[\<close>: the files whose names start with \<open>stem\<close>.
\<close>

type_synonym image_dir = "(string \<times> string) list"

definition valid_filename :: "string \<Rightarrow> bool" where
  "valid_filename n =
     (n \<noteq> [] \<and> n \<noteq> ''.'' \<and> n \<noteq> ''..'' \<and> CHR ''/'' \<notin> set n \<and> CHR 0x00 \<notin> set n)"

definition glob_literal :: "string \<Rightarrow> bool" where
  "glob_literal s = (\<forall>c \<in> set s. c \<notin> set ''*?[/'' \<and> c \<noteq> CHR 0x00)"

definition is_file :: "image_dir \<Rightarrow> string \<Rightarrow> bool" where
  "is_file fs n = (n \<in> set (map fst fs))"

definition glob_prefix :: "image_dir \<Rightarrow> string \<Rightarrow> string list" where
  "glob_prefix fs stem = filter (prefix stem) (map fst fs)"


text \<open>\<^verbatim>\<open>open(name, "ab")\<close> and \<^verbatim>\<open>open(name, "wb")\<close>, each followed by one write.\<close>

definition append_file :: "string \<Rightarrow> string \<Rightarrow> image_dir \<Rightarrow> image_dir" where
  "append_file n file_data fs =
     (case map_of fs n of
        None \<Rightarrow> fs @ [(n, file_data)]
      | Some old \<Rightarrow> AList.update n (old @ file_data) fs)"

definition write_file :: "string \<Rightarrow> string \<Rightarrow> image_dir \<Rightarrow> image_dir" where
  "write_file n file_data fs = AList.update n file_data fs"

text \<open>\<^verbatim>\<open>recipe_slug.split(".")[0]\<close>\<close>

definition stem_of :: "string \<Rightarrow> string" where
  "stem_of recipe_slug = takeWhile (\<lambda>c. c \<noteq> CHR ''.'') recipe_slug"

text \<open>
  \<^verbatim>\<open>
  def read_image(recipe_slug: str) -> Path:
      if IMG_DIR.joinpath(recipe_slug).is_file():
          return IMG_DIR.joinpath(recipe_slug)
      else:
          recipe_slug = recipe_slug.split(".")[0]
          for file in IMG_DIR.glob(f"{recipe_slug}*"):
              return file
  \<close>
  The result is the name of the file in \<^verbatim>\<open>IMG_DIR\<close>, or \<open>None\<close>.
\<close>

definition read_image :: "string \<Rightarrow> image_dir \<Rightarrow> string option" where
  "read_image recipe_slug fs =
     (if is_file fs recipe_slug then Some recipe_slug
      else (case glob_prefix fs (stem_of recipe_slug) of
              [] \<Rightarrow> None
            | file # _ \<Rightarrow> Some file))"



text \<open>
  \<^verbatim>\<open>Path(p).suffix\<close>: the path's last component that is not empty and not \<^verbatim>\<open>.\<close> is its
  name, and the suffix is the name from its last dot on, when that dot is neither the
  first nor the last character of the name.
\<close>

fun split_slash :: "string \<Rightarrow> string \<Rightarrow> string list" where
  "split_slash acc [] = [rev acc]"
| "split_slash acc (c # cs) =
     (if c = CHR ''/'' then rev acc # split_slash [] cs else split_slash (c # acc) cs)"

definition path_name :: "string \<Rightarrow> string" where
  "path_name p =
     (case filter (\<lambda>part. part \<noteq> [] \<and> part \<noteq> ''.'') (split_slash [] p) of
        [] \<Rightarrow> []
      | parts \<Rightarrow> last parts)"

definition name_suffix :: "string \<Rightarrow> string" where
  "name_suffix n =
     (let after = rev (takeWhile (\<lambda>c. c \<noteq> CHR ''.'') (rev n))
      in if CHR ''.'' \<in> set n \<and> after \<noteq> [] \<and> length after + 1 < length n
         then CHR ''.'' # after else [])"

definition path_suffix :: "string \<Rightarrow> string" where
  "path_suffix p = name_suffix (path_name p)"

text \<open>
  \<^verbatim>\<open>
  def scrape_image(image_url: str, slug: str) -> Path:
      if isinstance(image_url, str):  # Handles String Types
          image_url = image_url
      if isinstance(image_url, list):  # Handles List Types
          image_url = image_url[0]
      if isinstance(image_url, dict):  # Handles Dictionary Types
          for key in image_url:
              if key == "url":
                  image_url = image_url.get("url")
      #TODO: This could use a test
      extension = Path(urlparse(image_url).path).suffix
      filename = slug + "." + extension
      filename = IMG_DIR.joinpath(filename)
      try:
          r = requests.get(image_url, stream=True)
      except Exception as e:
          logger.error(f"Failed fetching image {e}")
          return
      if r.status_code == 200:
          with open(filename, "wb") as f:
              shutil.copyfileobj(r.raw, f)
          return filename
      return
  \<close>
  The three tests are consecutive \<^verbatim>\<open>if\<close>s: the first element of a list is itself tested
  for being a dict. A value that is still not a string after them makes \<^verbatim>\<open>urlparse\<close>
  raise \<^verbatim>\<open>AttributeError\<close> when it is true, and \<^verbatim>\<open>Path\<close> raise \<^verbatim>\<open>TypeError\<close> when it
  is false; a slug that is not a string makes the concatenation raise \<^verbatim>\<open>TypeError\<close>.
\<close>

fun first_of_list :: "pyval \<Rightarrow> py_error + pyval" where
  "first_of_list (PList []) = Inl IndexError"
| "first_of_list (PList (x # xs)) = Inr x"
| "first_of_list image_url = Inr image_url"

fun url_of_dict :: "pyval \<Rightarrow> pyval" where
  "url_of_dict (PDict d) = (case map_of d ''url'' of None \<Rightarrow> PDict d | Some v \<Rightarrow> v)"
| "url_of_dict image_url = image_url"

definition resolve_image_url :: "pyval \<Rightarrow> py_error + string" where
  "resolve_image_url image_url =
     (case first_of_list image_url of
        Inl e \<Rightarrow> Inl e
      | Inr x \<Rightarrow>
          (case url_of_dict x of
             PStr u \<Rightarrow> Inr u
           | v \<Rightarrow> if truthy v then Inl AttributeError else Inl TypeError))"

definition scrape_image ::
  "library \<Rightarrow> pyval \<Rightarrow> pyval \<Rightarrow> image_dir \<Rightarrow> (py_error + string option) \<times> image_dir" where
  "scrape_image L image_url slug fs =
     (case resolve_image_url image_url of
        Inl e \<Rightarrow> (Inl e, fs)
      | Inr u \<Rightarrow>
          (let extension = path_suffix (lib_url_path L u) in
           case slug of
             PStr s \<Rightarrow>
               (let filename = s @ ''.'' @ extension in
                case lib_http_get L u of
                  Inl e \<Rightarrow> (Inr None, fs)
                | Inr r \<Rightarrow>
                    if fst r = 200
                    then (if valid_filename filename
                          then (Inr (Some filename), write_file filename (snd r) fs)
                          else (Inl OSError, fs))
                    else (Inr None, fs))
           | _ \<Rightarrow> (Inl TypeError, fs)))"

section \<open>The ingestion pipeline (scrape\_services.py)\<close>

text \<open>
  \<^verbatim>\<open>
  def download_image_for_recipe(recipe: dict) -> dict:
      try:
          img_path = scrape_image(recipe.get("image"), recipe.get("slug"))
          recipe["image"] = img_path.name
      except Exception as e:
          logger.error(f"{e}")
          recipe["image"] = None
      return recipe
  \<close>
  When \<^verbatim>\<open>scrape_image\<close> returns \<open>None\<close>, \<^verbatim>\<open>img_path.name\<close> raises \<^verbatim>\<open>AttributeError\<close> inside
  the \<^verbatim>\<open>try\<close>, so that case ends in the handler as well. On anything but a dict the call
  \<^verbatim>\<open>recipe.get\<close> raises inside the \<^verbatim>\<open>try\<close> and the assignment in the handler raises
  \<^verbatim>\<open>TypeError\<close>, which nothing catches.
\<close>

fun download_image_for_recipe ::
  "library \<Rightarrow> pyval \<Rightarrow> image_dir \<Rightarrow> (py_error + pyval) \<times> image_dir" where
  "download_image_for_recipe L (PDict recipe) fs =
     (case scrape_image L (dict_get recipe ''image'') (dict_get recipe ''slug'') fs of
        (Inr (Some img_path), fs') \<Rightarrow> (Inr (PDict (dict_set ''image'' (PStr img_path) recipe)), fs')
      | (Inr None, fs') \<Rightarrow> (Inr (PDict (dict_set ''image'' PNone recipe)), fs')
      | (Inl e, fs') \<Rightarrow> (Inr (PDict (dict_set ''image'' PNone recipe)), fs'))"
| "download_image_for_recipe L recipe fs = (Inl TypeError, fs)"

text \<open>
  \<^verbatim>\<open>
  def process_recipe_url(url: str) -> dict:
      r = requests.get(url)
      new_recipe = extract_recipe_from_html(r.text, url)
      new_recipe = download_image_for_recipe(new_recipe)
      return new_recipe
  \<close>
\<close>

definition process_recipe_url ::
  "library \<Rightarrow> string \<Rightarrow> image_dir \<Rightarrow> ((py_error + pyval) \<times> image_dir) option" where
  "process_recipe_url L url fs =
     (case lib_http_get L url of
        Inl e \<Rightarrow> Some (Inl e, fs)
      | Inr r \<Rightarrow>
          (case extract_recipe_from_html L (snd r) url of
             None \<Rightarrow> None
           | Some (Inl e) \<Rightarrow> Some (Inl e, fs)
           | Some (Inr new_recipe) \<Rightarrow> Some (download_image_for_recipe L new_recipe fs)))"

section \<open>The standard library's \<^verbatim>\<open>html.unescape\<close>\<close>

text \<open>
  The concrete evaluations below need a decoder to run. This is CPython's:
  \<^verbatim>\<open>
  _charref = _re.compile(r'&(#[0-9]+;?'
                         r'|#[xX][0-9a-fA-F]+;?'
                         r'|[^\t\n\f <&#;]{1,32};?)')

  def _replace_charref(s):
      s = s.group(1)
      if s[0] == '#':
          # numeric charref
          if s[1] in 'xX':
              num = int(s[2:].rstrip(';'), 16)
          else:
              num = int(s[1:].rstrip(';'))
          ...
          return chr(num)
      else:
          # named charref
          if s in _html5:
              return _html5[s]
          # find the longest matching name (as defined by the standard)
          for x in range(len(s)-1, 1, -1):
              if s[:x] in _html5:
                  return _html5[s[:x]] + s[x:]
          else:
              return '&' + s

  def unescape(s):
      if '&' not in s:
          return s
      return _charref.sub(_replace_charref, s)
  \<close>
  with its two tables as parameters: \<open>names\<close> is \<^verbatim>\<open>html.entities.html5\<close> and \<open>chr_of\<close>
  gives the text for the number of a numeric reference (\<^verbatim>\<open>chr\<close>, after the substitutions
  for invalid numbers that the elided lines make).
\<close>

definition name_char :: "char \<Rightarrow> bool" where
  "name_char c = (c \<notin> set [CHR 0x09, CHR 0x0A, CHR 0x0C, CHR '' '', CHR ''<'', CHR ''&'', CHR ''#'', CHR '';''])"

definition is_hex :: "char \<Rightarrow> bool" where
  "is_hex c = (let n = (of_char c :: nat) in
     (48 \<le> n \<and> n \<le> 57) \<or> (65 \<le> n \<and> n \<le> 70) \<or> (97 \<le> n \<and> n \<le> 102))"

definition semicolon :: "string \<Rightarrow> nat" where
  "semicolon r = (case r of [] \<Rightarrow> 0 | c # _ \<Rightarrow> if c = CHR '';'' then 1 else 0)"

text \<open>
  \<open>charref_len cs\<close>: the length of the group that \<^verbatim>\<open>_charref\<close> matches in \<open>cs\<close>, the text
  after an ampersand; 0 when it does not match there.
\<close>

definition numeric_len :: "string \<Rightarrow> nat" where
  "numeric_len ds =
     (let n = length (takeWhile is_digit ds) in
      if 0 < n then 1 + n + semicolon (drop n ds)
      else (case ds of
              [] \<Rightarrow> 0
            | x # hs \<Rightarrow>
                (let m = length (takeWhile is_hex hs) in
                 if (x = CHR ''x'' \<or> x = CHR ''X'') \<and> 0 < m then 2 + m + semicolon (drop m hs)
                 else 0)))"

definition named_len :: "string \<Rightarrow> nat" where
  "named_len cs =
     (let n = length (take 32 (takeWhile name_char cs)) in
      if 0 < n then n + semicolon (drop n cs) else 0)"

definition charref_len :: "string \<Rightarrow> nat" where
  "charref_len cs =
     (case cs of
        [] \<Rightarrow> 0
      | c # ds \<Rightarrow> if c = CHR ''#'' then numeric_len ds else named_len cs)"

definition digit_val :: "char \<Rightarrow> nat" where
  "digit_val c = (let n = (of_char c :: nat) in
     if n \<le> 57 then n - 48 else if n \<le> 70 then n - 55 else n - 87)"

definition int_of :: "nat \<Rightarrow> string \<Rightarrow> nat" where
  "int_of base ds = foldl (\<lambda>a c. a * base + digit_val c) 0 ds"

definition rstrip_semicolon :: "string \<Rightarrow> string" where
  "rstrip_semicolon s = rev (dropWhile (\<lambda>c. c = CHR '';'') (rev s))"

fun longest_name :: "(string \<times> string) list \<Rightarrow> string \<Rightarrow> nat \<Rightarrow> string" where
  "longest_name names s 0 = CHR ''&'' # s"
| "longest_name names s (Suc x) =
     (if Suc x \<le> 1 then CHR ''&'' # s
      else (case map_of names (take (Suc x) s) of
              Some v \<Rightarrow> v @ drop (Suc x) s
            | None \<Rightarrow> longest_name names s x))"

definition replace_charref :: "(string \<times> string) list \<Rightarrow> (nat \<Rightarrow> string) \<Rightarrow> string \<Rightarrow> string" where
  "replace_charref names chr_of s =
     (if hd s = CHR ''#''
      then (if hd (tl s) = CHR ''x'' \<or> hd (tl s) = CHR ''X''
            then chr_of (int_of 16 (rstrip_semicolon (drop 2 s)))
            else chr_of (int_of 10 (rstrip_semicolon (drop 1 s))))
      else (case map_of names s of
              Some v \<Rightarrow> v
            | None \<Rightarrow> longest_name names s (length s - 1)))"

fun charref_sub :: "(string \<times> string) list \<Rightarrow> (nat \<Rightarrow> string) \<Rightarrow> string \<Rightarrow> string" where
  "charref_sub names chr_of [] = []"
| "charref_sub names chr_of (c # cs) =
     (if c = CHR ''&'' \<and> 0 < charref_len cs
      then replace_charref names chr_of (take (charref_len cs) cs)
             @ charref_sub names chr_of (drop (charref_len cs) cs)
      else c # charref_sub names chr_of cs)"

definition unescape :: "(string \<times> string) list \<Rightarrow> (nat \<Rightarrow> string) \<Rightarrow> string \<Rightarrow> string" where
  "unescape names chr_of s = (if CHR ''&'' \<notin> set s then s else charref_sub names chr_of s)"

text \<open>
  The entries of \<^verbatim>\<open>html.entities.html5\<close> for the five references of XML (the table has
  the first four also without the semicolon), and \<^verbatim>\<open>chr\<close> on the printable ASCII
  characters. The library instance \<open>stdlib\<close> decodes with these; its other fields are
  the simplest functions of the right type (\<^verbatim>\<open>str\<close> of a string, the lower-case letters
  of a title, a site that answers 404) and stand for the libraries in the evaluations
  at concrete inputs only.
\<close>

definition html5 :: "(string \<times> string) list" where
  "html5 =
     [(''amp'', ''&''), (''amp;'', ''&''), (''lt'', ''<''), (''lt;'', ''<''),
      (''gt'', ''>''), (''gt;'', ''>''), (''quot'', [CHR 0x22]), (''quot;'', [CHR 0x22]),
      (''apos;'', [CHR 0x27])]"

definition ascii_chr :: "nat \<Rightarrow> string" where
  "ascii_chr n = (if 32 \<le> n \<and> n \<le> 126 then [char_of n] else [])"

definition to_lower :: "char \<Rightarrow> char" where
  "to_lower c = (let n = (of_char c :: nat) in if 65 \<le> n \<and> n \<le> 90 then char_of (n + 32) else c)"

fun str_of :: "pyval \<Rightarrow> string" where
  "str_of (PStr s) = s"
| "str_of PNone = ''None''"
| "str_of (PBool b) = (if b then ''True'' else ''False'')"
| "str_of x = ''<object>''"

fun lower_slug :: "pyval \<Rightarrow> py_error + string" where
  "lower_slug (PStr s) = Inr (map to_lower s)"
| "lower_slug x = Inl TypeError"

definition stdlib :: library where
  "stdlib =
     \<lparr> lib_unescape = unescape html5 ascii_chr,
       lib_str = str_of,
       lib_slugify = lower_slug,
       lib_loads = (\<lambda>html. []),
       lib_scrape_url = (\<lambda>url. Inr []),
       lib_get_base_url = (\<lambda>html url. url),
       lib_opengraph = (\<lambda>html base_url. []),
       lib_url_path = (\<lambda>u. u),
       lib_http_get = (\<lambda>u. Inr (404, [])) \<rparr>"

text \<open>A decoder that never reaches a fixed point: every pass puts a character in front.\<close>

definition growing :: library where
  "growing = stdlib \<lparr> lib_unescape := (\<lambda>s. CHR ''x'' # s) \<rparr>"

text \<open>
  Instances for the evaluations of the image store and of the extractor: a host that
  answers every request with status 200, a page whose only metadata is an OpenGraph block
  with a title and an image, the same page without the title, and a site whose
  structured data is found by the second, URL-based attempt only.
\<close>

definition image_host :: library where
  "image_host = stdlib \<lparr> lib_http_get := (\<lambda>u. Inr (200, ''image at '' @ u)) \<rparr>"

definition chili_page :: library where
  "chili_page = image_host
     \<lparr> lib_opengraph :=
         (\<lambda>html base_url. [[(''og:title'', ''Chili''), (''og:image'', ''http://x/y.jpg'')]]) \<rparr>"

definition untitled_page :: library where
  "untitled_page = image_host
     \<lparr> lib_opengraph := (\<lambda>html base_url. [[(''og:image'', ''http://x/y.jpg'')]]) \<rparr>"

definition retry_site :: library where
  "retry_site = image_host
     \<lparr> lib_scrape_url :=
         (\<lambda>url. Inr [PDict [(''name'', PStr ''Chili''),
                           (''image'', PStr ''http://x/y.jpg''),
                           (''recipeIngredient'', PList [PStr ''beans'']),
                           (''recipeInstructions'', PStr ''1. Mix'')]]) \<rparr>"


section \<open>Properties\<close>

subsection \<open>The decoder shortens what it changes\<close>

text \<open>
  A character reference is at least as long as its replacement whenever every name of the
  table is at least as long as its text and a numeric reference gives at most two
  characters; a reference that is not replaced is copied. So a pass of \<open>unescape\<close> that
  changes a string makes it shorter.
\<close>

lemma semicolon_le: "semicolon r \<le> length r"
  by (cases r) (auto simp: semicolon_def)

lemma numeric_len_le: "numeric_len ds \<le> Suc (length ds)"
proof -
  have a: "length (takeWhile is_digit ds) + semicolon (drop (length (takeWhile is_digit ds)) ds) \<le> length ds"
    using semicolon_le [of "drop (length (takeWhile is_digit ds)) ds"] length_takeWhile_le [of is_digit ds]
    by simp
  have b: "length (takeWhile is_hex hs) + semicolon (drop (length (takeWhile is_hex hs)) hs) \<le> length hs" for hs
    using semicolon_le [of "drop (length (takeWhile is_hex hs)) hs"] length_takeWhile_le [of is_hex hs]
    by simp
  show ?thesis
    using a b by (cases ds) (auto simp: numeric_len_def Let_def add.commute le_SucI)
qed

lemma named_len_le: "named_len cs \<le> length cs"
proof -
  let ?n = "length (take 32 (takeWhile name_char cs))"
  have "?n \<le> length cs"
    using length_takeWhile_le [of name_char cs] by simp
  moreover have "semicolon (drop ?n cs) \<le> length cs - ?n"
    using semicolon_le [of "drop ?n cs"] by simp
  ultimately show ?thesis
    by (auto simp: named_len_def Let_def)
qed

lemma charref_len_le: "charref_len cs \<le> length cs"
  using numeric_len_le named_len_le [of cs]
  by (cases cs) (auto simp: charref_len_def)

lemma numeric_len_ge2: "0 < numeric_len ds \<Longrightarrow> 2 \<le> numeric_len ds"
  by (cases ds) (auto simp: numeric_len_def Let_def split: if_splits)

lemma longest_name_len:
  assumes "\<forall>kv \<in> set names. length (snd kv) \<le> length (fst kv)"
  shows "longest_name names s x = CHR ''&'' # s \<or> length (longest_name names s x) \<le> length s"
proof (induction x)
  case 0
  show ?case by simp
next
  case (Suc x)
  show ?case
  proof (cases "map_of names (take (Suc x) s)")
    case None
    with Suc show ?thesis by simp
  next
    case (Some v)
    then have "(take (Suc x) s, v) \<in> set names" by (rule map_of_SomeD)
    with assms have "length v \<le> length (take (Suc x) s)" by fastforce
    then have "length (v @ drop (Suc x) s) \<le> length s" by simp arith
    with Some show ?thesis by simp
  qed
qed

lemma replace_charref_len:
  assumes names: "\<forall>kv \<in> set names. length (snd kv) \<le> length (fst kv)"
    and chr: "\<forall>n. length (chr_of n) \<le> 2"
    and pos: "0 < charref_len cs"
  shows "replace_charref names chr_of (take (charref_len cs) cs) = CHR ''&'' # take (charref_len cs) cs
         \<or> length (replace_charref names chr_of (take (charref_len cs) cs)) \<le> charref_len cs"
proof -
  let ?s = "take (charref_len cs) cs"
  have len: "length ?s = charref_len cs"
    using charref_len_le [of cs] by simp
  from pos obtain c ds where cs: "cs = c # ds"
    by (cases cs) (auto simp: charref_len_def)
  have hd: "hd ?s = c"
    using pos cs by (cases "charref_len cs") auto
  show ?thesis
  proof (cases "c = CHR ''#''")
    case True
    then have "charref_len cs = numeric_len ds" by (simp add: cs charref_len_def)
    with pos have "2 \<le> charref_len cs" using numeric_len_ge2 [of ds] by simp
    moreover have "\<exists>n. replace_charref names chr_of ?s = chr_of n"
      using True hd by (auto simp: replace_charref_def)
    ultimately show ?thesis using chr
      by (metis le_trans)
  next
    case False
    show ?thesis
    proof (cases "map_of names ?s")
      case None
      then have "replace_charref names chr_of ?s = longest_name names ?s (length ?s - 1)"
        using False hd by (simp add: replace_charref_def)
      then show ?thesis using longest_name_len [OF names, of ?s "length ?s - 1"] len by auto
    next
      case (Some v)
      then have "(?s, v) \<in> set names" by (rule map_of_SomeD)
      with names have "length v \<le> length ?s" by fastforce
      moreover have "replace_charref names chr_of ?s = v"
        using False hd Some by (simp add: replace_charref_def)
      ultimately show ?thesis using len by simp
    qed
  qed
qed

lemma charref_sub_len:
  assumes names: "\<forall>kv \<in> set names. length (snd kv) \<le> length (fst kv)"
    and chr: "\<forall>n. length (chr_of n) \<le> 2"
  shows "length (charref_sub names chr_of s) \<le> length s
         \<and> (length (charref_sub names chr_of s) = length s \<longrightarrow> charref_sub names chr_of s = s)"
proof (induction "length s" arbitrary: s rule: less_induct)
  case less
  show ?case
  proof (cases s)
    case Nil
    then show ?thesis by simp
  next
    case (Cons c cs)
    note IH = less [of "tl s"] less [of "drop (charref_len cs) cs"]
    show ?thesis
  proof (cases "c = CHR ''&'' \<and> 0 < charref_len cs")
    case False
    with IH(1) Cons show ?thesis by auto
  next
    case True
    let ?k = "charref_len cs"
    let ?R = "replace_charref names chr_of (take ?k cs)"
    let ?rest = "drop ?k cs"
    have ih1: "length (charref_sub names chr_of ?rest) \<le> length ?rest"
      and ih2: "length (charref_sub names chr_of ?rest) = length ?rest
                  \<Longrightarrow> charref_sub names chr_of ?rest = ?rest"
      using IH(2) Cons by auto
    have kle: "?k \<le> length cs" by (rule charref_len_le)
    have rest: "length ?rest = length cs - ?k" by simp
    have res: "charref_sub names chr_of (c # cs) = ?R @ charref_sub names chr_of ?rest"
      using True by simp
    have tot: "length (charref_sub names chr_of (c # cs))
                 = length ?R + length (charref_sub names chr_of ?rest)"
      by (simp only: res length_append)
    define a where "a = length (charref_sub names chr_of (c # cs))"
    define b where "b = length (charref_sub names chr_of ?rest)"
    define r where "r = length ?R"
    have tot': "a = r + b" and ih1': "b \<le> length cs - ?k"
      using tot ih1 rest by (simp_all only: a_def b_def r_def)
    from replace_charref_len [OF names chr, of cs] True
    consider (same) "?R = CHR ''&'' # take ?k cs" | (shorter) "length ?R \<le> ?k" by auto
    then show ?thesis
    proof cases
      case shorter
      then have "r \<le> ?k" by (simp only: r_def)
      with tot' ih1' kle have "a < Suc (length cs)" by linarith
      then have "length (charref_sub names chr_of s) < length s"
        by (simp only: a_def Cons length_Cons)
      then show ?thesis by simp
    next
      case same
      have "length (CHR ''&'' # take ?k cs) = Suc ?k"
        using kle by simp
      with same have lenR: "r = Suc ?k" by (simp only: r_def)
      from tot' lenR ih1' kle have "a \<le> Suc (length cs)" by linarith
      then have le: "length (charref_sub names chr_of s) \<le> length s"
        by (simp only: a_def Cons length_Cons)
      have eq: "charref_sub names chr_of s = s"
        if "length (charref_sub names chr_of s) = length s"
      proof -
        from that have "a = Suc (length cs)" by (simp only: a_def Cons length_Cons)
        with tot' lenR kle have "b = length cs - ?k" by linarith
        then have "length (charref_sub names chr_of ?rest) = length ?rest"
          by (simp only: b_def rest)
        then have "charref_sub names chr_of ?rest = ?rest" by (rule ih2)
        with res same have "charref_sub names chr_of (c # cs) = (CHR ''&'' # take ?k cs) @ ?rest"
          by (simp only:)
        also have "\<dots> = c # cs" using True by simp
        finally show ?thesis by (simp only: Cons)
      qed
      from le eq show ?thesis by blast
    qed
  qed
  qed
qed

lemma unescape_shrinks:
  assumes "\<forall>kv \<in> set names. length (snd kv) \<le> length (fst kv)" and "\<forall>n. length (chr_of n) \<le> 2"
  shows "unescape names chr_of s \<noteq> s \<Longrightarrow> length (unescape names chr_of s) < length s"
  using charref_sub_len [OF assms, of s] by (auto simp: unescape_def split: if_splits)

lemma stdlib_unescape_shrinks:
  "lib_unescape stdlib s \<noteq> s \<Longrightarrow> length (lib_unescape stdlib s) < length s"
proof -
  have "\<forall>kv \<in> set html5. length (snd kv) \<le> length (fst kv)" by (simp add: html5_def)
  moreover have "\<forall>n. length (ascii_chr n) \<le> 2" by (simp add: ascii_chr_def)
  ultimately show "lib_unescape stdlib s \<noteq> s \<Longrightarrow> length (lib_unescape stdlib s) < length s"
    using unescape_shrinks [of html5 ascii_chr s] by (simp add: stdlib_def)
qed

lemma unescape_loop_str:
  assumes shrink: "\<And>s. lib_unescape L s \<noteq> s \<Longrightarrow> m (lib_unescape L s) < (m s :: nat)"
  shows "\<exists>r. unescape_loop L (PStr s) = Some (Inr (PStr r)) \<and> lib_unescape L r = r"
proof (induction "m s" arbitrary: s rule: less_induct)
  case less
  show ?case
  proof (cases "lib_unescape L s = s")
    case True
    then have "unescape_loop L (PStr s) = Some (Inr (PStr s))"
      by (subst unescape_loop.simps) simp
    with True show ?thesis by blast
  next
    case False
    then have "unescape_loop L (PStr s) = unescape_loop L (PStr (lib_unescape L s))"
      by (subst unescape_loop.simps) auto
    moreover from False have "m (lib_unescape L s) < m s" by (rule shrink)
    ultimately show ?thesis using less by simp
  qed
qed

lemma unescape_loop_other:
  "(\<forall>s. l \<noteq> PStr s) \<Longrightarrow> \<exists>r. unescape_loop L l = Some r"
  by (subst unescape_loop.simps) (cases l; auto)

subsection \<open>The claims\<close>

text \<open>
  C1. Claimed: \<open>normalize_time\<close> keeps null, converts a non-string value to its string
  representation and returns a string unchanged. The first two hold; the third does not:
  a string falls through both branches, so the result is \<open>None\<close>. At the ISO duration
  \<^verbatim>\<open>"PT30M"\<close> the function returns \<open>None\<close>, whatever \<^verbatim>\<open>str\<close> is.
\<close>

theorem normalize_time_str_is_none:
  "normalize_time L (PStr ''PT30M'') = PNone
   \<and> normalize_time L (PStr ''PT30M'') \<noteq> PStr ''PT30M''
   \<and> normalize_time L PNone = PNone
   \<and> normalize_time L (PTimedelta 1800000000) = PStr (lib_str L (PTimedelta 1800000000))"
  by simp


lemma growing_never_returns:
  assumes "unescape_loop L l = Some y"
  shows "lib_unescape L = (\<lambda>s. CHR ''x'' # s) \<longrightarrow> (\<forall>s. l \<noteq> PStr s)"
proof (rule unescape_loop.raw_induct [OF _ assms])
  fix f :: "library \<Rightarrow> pyval \<Rightarrow> (py_error + pyval) option" and L l y
  assume IH: "\<And>l b y. f l b = Some y
                \<Longrightarrow> lib_unescape l = (\<lambda>s. CHR ''x'' # s) \<longrightarrow> (\<forall>s. b \<noteq> PStr s)"
    and body: "(case html_unescape L l of
                  Inl e \<Rightarrow> Some (Inl e)
                | Inr l' \<Rightarrow> if l = l' then Some (Inr l') else f L l') = Some y"
  show "lib_unescape L = (\<lambda>s. CHR ''x'' # s) \<longrightarrow> (\<forall>s. l \<noteq> PStr s)"
  proof (intro impI allI notI)
    fix s
    assume g: "lib_unescape L = (\<lambda>s. CHR ''x'' # s)" and l: "l = PStr s"
    from body g l have "f L (PStr (CHR ''x'' # s)) = Some y" by simp
    from IH [OF this] g show False by blast
  qed
qed



text \<open>
  C5. For every URL string \<open>u\<close>, \<open>normalize_image_url\<close> returns \<open>u\<close> on \<open>u\<close> itself, on
  the list \<open>[u]\<close> and on every dict whose \<^verbatim>\<open>"url"\<close> entry is \<open>u\<close>; on a value that is
  neither a string nor a list nor a dict it raises the exception whose message carries
  the value (formatted by \<^verbatim>\<open>str\<close>).
\<close>

theorem normalize_image_url_shapes:
  "normalize_image_url L (PStr u) = Inr (PStr u)
   \<and> normalize_image_url L (PList [PStr u]) = Inr (PStr u)
   \<and> (map_of d ''url'' = Some (PStr u) \<longrightarrow> normalize_image_url L (PDict d) = Inr (PStr u))
   \<and> ((\<forall>s. v \<noteq> PStr s) \<and> (\<forall>xs. v \<noteq> PList xs) \<and> (\<forall>m. v \<noteq> PDict m)
        \<longrightarrow> normalize_image_url L v
              = Inl (Exception (''Unrecognised image URL format: '' @ lib_str L v)))"
  by (cases v) simp_all

theorem normalize_image_url_shapes_witness:
  "normalize_image_url stdlib (PDict [(''@type'', PStr ''ImageObject''), (''url'', PStr ''http://x/y.jpg'')])
     = Inr (PStr ''http://x/y.jpg'')
   \<and> normalize_image_url stdlib (PList [PStr ''http://x/y.jpg'']) = Inr (PStr ''http://x/y.jpg'')
   \<and> normalize_image_url stdlib PNone = Inl (Exception ''Unrecognised image URL format: None'')"
  using normalize_image_url_shapes
    [of stdlib "''http://x/y.jpg''"
        "[(''@type'', PStr ''ImageObject''), (''url'', PStr ''http://x/y.jpg'')]" PNone]
  by (simp add: stdlib_def)

text \<open>
  C9. On the empty list \<open>normalize_instructions\<close> raises \<^verbatim>\<open>IndexError\<close>, from the
  unguarded \<^verbatim>\<open>instructions[0]\<close> of the second test; it does not reach the final
  \<^verbatim>\<open>raise Exception("Unrecognised instruction format: ...")\<close>.
\<close>

theorem normalize_instructions_empty_list:
  "normalize_instructions L (PList []) = Some (Inl IndexError)
   \<and> normalize_instructions L (PList [])
       \<noteq> Some (Inl (Exception (''Unrecognised instruction format: '' @ lib_str L (PList []))))"
  by simp



text \<open>
  C7. \<^verbatim>\<open>unescape_html("&amp;amp;lt;b&amp;amp;gt;")\<close> is \<^verbatim>\<open>"<b>"\<close>. And whenever each
  decoding pass that changes a string makes it smaller in some measure (as
  \<^verbatim>\<open>html.unescape\<close> does), \<open>unescape_html\<close> on a non-empty string returns a string that
  one more decoding pass leaves as it is.
\<close>

theorem unescape_html_fixed_point:
  assumes "\<And>s. lib_unescape L s \<noteq> s \<Longrightarrow> m (lib_unescape L s) < (m s :: nat)"
  shows "unescape_html stdlib (PStr ''&amp;amp;lt;b&amp;amp;gt;'') = Some (Inr (PStr ''<b>''))
         \<and> (s \<noteq> [] \<longrightarrow>
              (\<exists>r. unescape_html L (PStr s) = Some (Inr (PStr r)) \<and> lib_unescape L r = r))"
proof -
  have "unescape_html stdlib (PStr ''&amp;amp;lt;b&amp;amp;gt;'') = Some (Inr (PStr ''<b>''))"
    by code_simp
  moreover have "\<exists>r. unescape_loop L (PStr s) = Some (Inr (PStr r)) \<and> lib_unescape L r = r"
    using assms by (rule unescape_loop_str)
  ultimately show ?thesis by (simp add: unescape_html_def)
qed

theorem unescape_html_fixed_point_witness:
  "\<exists>r. unescape_html stdlib (PStr ''&amp;quot;Chili&amp;quot;'') = Some (Inr (PStr r))
       \<and> lib_unescape stdlib r = r"
  using unescape_html_fixed_point
    [where L = stdlib and m = length and s = "''&amp;quot;Chili&amp;quot;''",
     OF stdlib_unescape_shrinks]
  by simp

text \<open>
  C6. Claimed: \<open>unescape_html\<close> terminates on every string because an iteration cap
  bounds its loop. The loop has no cap. With a decoder that never reaches a fixed point
  it does not return; and with the decoder of the standard library it goes on for as
  many passes as the text is escaped deep: on an ampersand escaped twelve times the
  result is the ampersand, which ten passes do not reach.
\<close>

theorem unescape_html_no_iteration_cap:
  "unescape_html growing (PStr ''a'') = None
   \<and> unescape_html stdlib (PStr ''&amp;amp;amp;amp;amp;amp;amp;amp;amp;amp;amp;amp;'')
       = Some (Inr (PStr ''&''))
   \<and> (lib_unescape stdlib ^^ 10) ''&amp;amp;amp;amp;amp;amp;amp;amp;amp;amp;amp;amp;''
       = ''&amp;amp;''"
proof -
  have "unescape_loop growing (PStr ''a'') = None"
  proof (cases "unescape_loop growing (PStr ''a'')")
    case None
    then show ?thesis .
  next
    case (Some y)
    from growing_never_returns [OF this] show ?thesis by (simp add: growing_def)
  qed
  then have "unescape_html growing (PStr ''a'') = None"
    by (simp add: unescape_html_def)
  moreover have "unescape_html stdlib (PStr ''&amp;amp;amp;amp;amp;amp;amp;amp;amp;amp;amp;amp;'')
       = Some (Inr (PStr ''&''))"
    by code_simp
  moreover have "(lib_unescape stdlib ^^ 10) ''&amp;amp;amp;amp;amp;amp;amp;amp;amp;amp;amp;amp;''
       = ''&amp;amp;''"
    by code_simp
  ultimately show ?thesis by blast
qed

text \<open>
  C6, as the code has it: \<open>unescape_html\<close> returns on every value, whatever its shape,
  provided each decoding pass that changes a string makes it smaller in some measure.
  Termination rests on that convergence alone. \<^verbatim>\<open>html.unescape\<close> has the property: a
  character reference is longer than the text that replaces it.
\<close>

theorem unescape_html_terminates:
  assumes "\<And>s. lib_unescape L s \<noteq> s \<Longrightarrow> m (lib_unescape L s) < (m s :: nat)"
  shows "\<exists>r. unescape_html L l = Some r"
proof (cases "\<exists>s. l = PStr s")
  case True
  then obtain s where "l = PStr s" by blast
  moreover have "\<exists>r. unescape_loop L (PStr s) = Some (Inr (PStr r)) \<and> lib_unescape L r = r"
    using assms by (rule unescape_loop_str)
  ultimately show ?thesis by (auto simp: unescape_html_def)
next
  case False
  then have "\<exists>r. unescape_loop L l = Some r"
    by (intro unescape_loop_other) blast
  then show ?thesis by (auto simp: unescape_html_def)
qed

theorem unescape_html_terminates_witness:
  "\<exists>r. unescape_html stdlib (PStr ''&amp;amp;lt;b&amp;amp;gt;'') = Some r"
  using unescape_html_terminates
    [where L = stdlib and m = length and l = "PStr ''&amp;amp;lt;b&amp;amp;gt;''",
     OF stdlib_unescape_shrinks]
  by simp

subsection \<open>Facts about the image directory\<close>

lemma stem_prefix: "prefix (stem_of s) (s @ t)"
proof -
  have "prefix (takeWhile (\<lambda>c. c \<noteq> CHR ''.'') s) s"
    by (metis prefixI takeWhile_dropWhile_id)
  then show ?thesis
    unfolding stem_of_def by (rule prefix_prefix)
qed

lemma glob_empty_no_file:
  assumes "glob_prefix fs st = []" and "prefix st n"
  shows "n \<notin> set (map fst fs)"
proof
  assume "n \<in> set (map fst fs)"
  with assms(2) have "n \<in> set (glob_prefix fs st)"
    by (simp add: glob_prefix_def)
  with assms(1) show False by simp
qed

lemma update_fresh: "n \<notin> set (map fst fs) \<Longrightarrow> AList.update n b fs = fs @ [(n, b)]"
  by (induction fs) auto

lemma glob_append:
  "glob_prefix (fs @ [(n, b)]) st = glob_prefix fs st @ (if prefix st n then [n] else [])"
  by (simp add: glob_prefix_def)



lemma create_in_cleared:
  assumes "glob_prefix fs (stem_of slug) = []"
  shows "append_file (slug @ t) b fs = fs @ [(slug @ t, b)]"
    and "write_file (slug @ t) b fs = fs @ [(slug @ t, b)]"
    and "glob_prefix (fs @ [(slug @ t, b)]) (stem_of slug) = [slug @ t]"
    and "map_of (fs @ [(slug @ t, b)]) (slug @ t) = Some b"
    and "t \<noteq> [] \<Longrightarrow> read_image slug (fs @ [(slug @ t, b)]) = Some (slug @ t)"
proof -
  have fresh: "slug @ t \<notin> set (map fst fs)"
    using assms stem_prefix by (rule glob_empty_no_file)
  then have none: "map_of fs (slug @ t) = None"
    by (simp add: map_of_eq_None_iff)
  show "append_file (slug @ t) b fs = fs @ [(slug @ t, b)]"
    using none by (simp add: append_file_def)
  show "write_file (slug @ t) b fs = fs @ [(slug @ t, b)]"
    using fresh by (simp add: write_file_def update_fresh)
  show glob: "glob_prefix (fs @ [(slug @ t, b)]) (stem_of slug) = [slug @ t]"
    using assms stem_prefix [of slug t] by (simp add: glob_append)
  show "map_of (fs @ [(slug @ t, b)]) (slug @ t) = Some b"
    using none by (simp add: map_add_def)
  show "read_image slug (fs @ [(slug @ t, b)]) = Some (slug @ t)" if "t \<noteq> []"
  proof -
    have "slug \<notin> set (map fst fs)"
      using glob_empty_no_file [OF assms stem_prefix [of slug "[]"]] by simp
    then have "\<not> is_file (fs @ [(slug @ t, b)]) slug"
      using that by (simp add: is_file_def)
    then show ?thesis
      by (simp only: read_image_def glob if_False list.case)
  qed
qed


lemma name_suffix_dot:
  assumes "name_suffix n \<noteq> []"
  shows "\<exists>e. e \<noteq> [] \<and> name_suffix n = CHR ''.'' # e"
  using assms by (auto simp: name_suffix_def Let_def split: if_splits)

lemma scrape_image_success:
  assumes "scrape_image L (PStr u) (PStr slug) fs = (Inr (Some n), fs')"
  shows "n = slug @ ''.'' @ path_suffix (lib_url_path L u)"
    and "valid_filename n"
    and "\<exists>body. lib_http_get L u = Inr (200, body) \<and> fs' = write_file n body fs"
proof -
  let ?n = "slug @ ''.'' @ path_suffix (lib_url_path L u)"
  obtain r where r: "lib_http_get L u = Inr r"
    using assms by (cases "lib_http_get L u") (auto simp: scrape_image_def resolve_image_url_def Let_def)
  have ok: "fst r = 200"
    using assms r by (auto simp: scrape_image_def resolve_image_url_def Let_def split: if_splits)
  have valid: "valid_filename ?n"
    using assms r ok by (auto simp: scrape_image_def resolve_image_url_def Let_def split: if_splits)
  have res: "scrape_image L (PStr u) (PStr slug) fs = (Inr (Some ?n), write_file ?n (snd r) fs)"
    using r ok valid by (simp add: scrape_image_def resolve_image_url_def Let_def)
  from res assms show n: "n = ?n" by simp
  from valid n show "valid_filename n" by simp
  from res assms r ok n show "\<exists>body. lib_http_get L u = Inr (200, body) \<and> fs' = write_file n body fs"
    by (cases r) auto
qed

subsection \<open>The claims on the image store and the pipeline\<close>

text \<open>
  C2. Whatever exception \<open>scrape_image\<close> raises for the record's image and slug,
  \<open>download_image_for_recipe\<close> returns the record, with its \<^verbatim>\<open>image\<close> field set to
  \<open>None\<close> and every other field as it was; the image directory is the one
  \<open>scrape_image\<close> left.
\<close>

theorem download_image_swallows_exceptions:
  assumes "scrape_image L (dict_get recipe ''image'') (dict_get recipe ''slug'') fs = (Inl e, fs')"
  shows "download_image_for_recipe L (PDict recipe) fs
           = (Inr (PDict (dict_set ''image'' PNone recipe)), fs')
         \<and> dict_get (dict_set ''image'' PNone recipe) ''image'' = PNone
         \<and> (\<forall>k. k \<noteq> ''image'' \<longrightarrow> map_of (dict_set ''image'' PNone recipe) k = map_of recipe k)"
  using assms by (simp add: dict_set_def dict_get_def update_conv')

theorem download_image_swallows_exceptions_witness:
  "scrape_image stdlib (PList []) (PStr ''chili'') [] = (Inl IndexError, [])
   \<and> download_image_for_recipe stdlib
        (PDict [(''name'', PStr ''Chili''), (''slug'', PStr ''chili''), (''image'', PList [])]) []
       = (Inr (PDict [(''name'', PStr ''Chili''), (''slug'', PStr ''chili''), (''image'', PNone)]), [])"
proof -
  have raised: "scrape_image stdlib
      (dict_get [(''name'', PStr ''Chili''), (''slug'', PStr ''chili''), (''image'', PList [])] ''image'')
      (dict_get [(''name'', PStr ''Chili''), (''slug'', PStr ''chili''), (''image'', PList [])] ''slug'') []
      = (Inl IndexError, [])"
    by (simp add: dict_get_def scrape_image_def resolve_image_url_def)
  from download_image_swallows_exceptions [OF raised] raised
  show ?thesis by (simp add: dict_get_def dict_set_def)
qed




text \<open>
  C10. When \<open>scrape_image\<close> stores a file for a URL whose path has a suffix, the suffix
  starts with a dot and the code puts one more between slug and suffix: the file's name is
  the slug, two dots and the extension. That name is neither the slug nor the slug with
  the single-dotted extension, so \<open>read_image\<close> of either never returns the file from
  its test for a file of exactly that name; the file is among those the fallback's
  pattern matches, and the fallback returns it when no file of the slug's stem was there
  before.
\<close>

theorem scrape_image_doubles_dot:
  assumes "scrape_image L (PStr u) (PStr slug) fs = (Inr (Some n), fs')"
    and "path_suffix (lib_url_path L u) \<noteq> []"
    and "glob_literal slug"
  shows "\<exists>e. e \<noteq> [] \<and> path_suffix (lib_url_path L u) = CHR ''.'' # e
             \<and> n = slug @ ''..'' @ e
             \<and> is_file fs' n
             \<and> n \<noteq> slug \<and> n \<noteq> slug @ ''.'' @ e
             \<and> (is_file fs' slug \<longrightarrow> read_image slug fs' = Some slug)
             \<and> (is_file fs' (slug @ ''.'' @ e)
                  \<longrightarrow> read_image (slug @ ''.'' @ e) fs' = Some (slug @ ''.'' @ e))
             \<and> n \<in> set (glob_prefix fs' (stem_of slug))
             \<and> (glob_prefix fs (stem_of slug) = [] \<longrightarrow> read_image slug fs' = Some n)"
proof -
  from assms(2) obtain e where e: "e \<noteq> []" "path_suffix (lib_url_path L u) = CHR ''.'' # e"
    unfolding path_suffix_def using name_suffix_dot by blast
  note s = scrape_image_success [OF assms(1)]
  have n: "n = slug @ ''..'' @ e"
    using s(1) e(2) by simp
  from s(3) obtain body where fs': "fs' = write_file n body fs" by blast
  have stored: "is_file fs' n"
    by (simp add: fs' is_file_def write_file_def dom_update)
  have ne: "n \<noteq> slug" "n \<noteq> slug @ ''.'' @ e"
    using e(1) by (simp_all add: n)
  have glob: "n \<in> set (glob_prefix fs' (stem_of slug))"
    using stored stem_prefix [of slug "''..'' @ e"] by (simp add: glob_prefix_def is_file_def n)
  have fallback: "read_image slug fs' = Some n" if "glob_prefix fs (stem_of slug) = []"
  proof -
    have "fs' = fs @ [(slug @ ''..'' @ e, body)]"
      using create_in_cleared(2) [OF that, of "''..'' @ e" body] by (simp add: fs' n)
    then show ?thesis
      using create_in_cleared(5) [OF that, of "''..'' @ e" body] by (simp add: n)
  qed
  show ?thesis
    using e n stored ne glob fallback by (auto simp: read_image_def)
qed

theorem scrape_image_doubles_dot_witness:
  "scrape_image image_host (PStr ''http://x/y.jpg'') (PStr ''chili'') []
     = (Inr (Some ''chili..jpg''), [(''chili..jpg'', ''image at http://x/y.jpg'')])
   \<and> \<not> is_file [(''chili..jpg'', ''image at http://x/y.jpg'')] ''chili''
   \<and> \<not> is_file [(''chili..jpg'', ''image at http://x/y.jpg'')] ''chili.jpg''
   \<and> read_image ''chili'' [(''chili..jpg'', ''image at http://x/y.jpg'')] = Some ''chili..jpg''"
proof -
  have a: "scrape_image image_host (PStr ''http://x/y.jpg'') (PStr ''chili'') []
             = (Inr (Some ''chili..jpg''), [(''chili..jpg'', ''image at http://x/y.jpg'')])"
    by code_simp
  have b: "path_suffix (lib_url_path image_host ''http://x/y.jpg'') \<noteq> []"
    by code_simp
  have c: "glob_literal ''chili''"
    by (simp add: glob_literal_def)
  have d: "glob_prefix [] (stem_of ''chili'') = []"
    by (simp add: glob_prefix_def)
  from scrape_image_doubles_dot [OF a b c] d a
  show ?thesis by (auto simp: is_file_def)
qed

text \<open>
  C4. Claimed: every page whose HTML yields no schema.org candidate ends in the OpenGraph
  record with the two sentinels. Three things stand in between. The extraction is tried a
  second time from the URL, and a candidate found there is used. A page without any
  OpenGraph block raises \<^verbatim>\<open>IndexError\<close> at \<^verbatim>\<open>data["opengraph"][0]\<close>. And \<^verbatim>\<open>slugify\<close> is
  applied to the title as it is: without an \<^verbatim>\<open>og:title\<close> it gets \<open>None\<close> and what it
  raises is the result.
\<close>

theorem extract_recipe_without_fallback_record:
  "lib_loads stdlib ''<html></html>'' = []
   \<and> extract_recipe_from_html stdlib ''<html></html>'' ''http://x/'' = Some (Inl IndexError)
   \<and> lib_loads untitled_page ''<html></html>'' = []
   \<and> extract_recipe_from_html untitled_page ''<html></html>'' ''http://x/'' = Some (Inl TypeError)
   \<and> lib_loads retry_site ''<html></html>'' = []
   \<and> rbind (extract_recipe_from_html retry_site ''<html></html>'' ''http://x/'')
        (\<lambda>r. Some (py_getitem r ''recipeIngredient''))
       = Some (Inr (PList [PStr ''beans'']))"
  by code_simp

text \<open>
  C4, as the code has it: when neither the HTML nor the URL yields a schema.org
  candidate, the page has at least one OpenGraph block and \<^verbatim>\<open>slugify\<close> returns on the
  \<^verbatim>\<open>og:title\<close> of the first block, the extractor returns the record whose
  \<^verbatim>\<open>recipeIngredient\<close> is \<^verbatim>\<open>["Could not detect ingredients"]\<close>, whose
  \<^verbatim>\<open>recipeInstructions\<close> is \<^verbatim>\<open>[{"text": "Could not detect instructions"}]\<close>, whose
  \<^verbatim>\<open>recipeYield\<close> is the empty string and whose slug is what \<^verbatim>\<open>slugify\<close> returned.
\<close>

theorem extract_recipe_opengraph_fallback:
  assumes "lib_loads L html = []"
    and "lib_scrape_url L url = Inr []"
    and "lib_opengraph L html (lib_get_base_url L html url) = properties # others"
    and "lib_slugify L (og_field properties ''og:title'') = Inr slug"
  shows "\<exists>d. extract_recipe_from_html L html url = Some (Inr (PDict d))
             \<and> map_of d ''recipeIngredient'' = Some (PList [PStr ''Could not detect ingredients''])
             \<and> map_of d ''recipeInstructions''
                 = Some (PList [PDict [(''text'', PStr ''Could not detect instructions'')]])
             \<and> map_of d ''recipeYield'' = Some (PStr [])
             \<and> map_of d ''slug'' = Some (PStr slug)
             \<and> map_of d ''name'' = Some (og_field properties ''og:title'')"
  using assms
  by (simp add: extract_recipe_from_html_def scraped_recipes_def basic_recipe_from_opengraph_def)

theorem extract_recipe_opengraph_fallback_witness:
  "\<exists>d. extract_recipe_from_html chili_page ''<html></html>'' ''http://x/'' = Some (Inr (PDict d))
       \<and> map_of d ''recipeIngredient'' = Some (PList [PStr ''Could not detect ingredients''])
       \<and> map_of d ''slug'' = Some (PStr ''chili'')"
proof -
  have a: "lib_loads chili_page ''<html></html>'' = []"
    by (simp add: chili_page_def image_host_def stdlib_def)
  have b: "lib_scrape_url chili_page ''http://x/'' = Inr []"
    by (simp add: chili_page_def image_host_def stdlib_def)
  have c: "lib_opengraph chili_page ''<html></html>'' (lib_get_base_url chili_page ''<html></html>'' ''http://x/'')
             = [(''og:title'', ''Chili''), (''og:image'', ''http://x/y.jpg'')] # []"
    by (simp add: chili_page_def image_host_def stdlib_def)
  have d: "lib_slugify chili_page (og_field [(''og:title'', ''Chili''), (''og:image'', ''http://x/y.jpg'')] ''og:title'')
             = Inr ''chili''"
    by code_simp
  from extract_recipe_opengraph_fallback [OF a b c d]
  show ?thesis by blast
qed

end
